theory Spec2Isabelle
  imports Complex_Main
begin

section \<open>Numbers as pandas and Python compare them\<close>

text \<open>
  The indicator columns are float64 (or int64) columns of a DataFrame, and the two numeric
  arguments (asset size, expected return) are Python numbers, an int or a float. The
  program only ever compares them with integer constants, so a number is modelled by
  what the comparisons can see: a missing cell or any other not-a-number value, one of
  the two infinities, or a finite value, which is a real number. Every comparison with a
  not-a-number value is false, in Python and in pandas.
\<close>

datatype number = NaN | NegInf | Finite real | PosInf

text \<open>\<^verbatim>\<open>x < y\<close>\<close>

fun number_lt :: "number \<Rightarrow> number \<Rightarrow> bool" where
  "number_lt NaN y = False"
| "number_lt x NaN = False"
| "number_lt x NegInf = False"
| "number_lt PosInf y = False"
| "number_lt NegInf y = True"
| "number_lt x PosInf = True"
| "number_lt (Finite x) (Finite y) = (x < y)"

text \<open>\<^verbatim>\<open>x <= y\<close>\<close>

fun number_le :: "number \<Rightarrow> number \<Rightarrow> bool" where
  "number_le NaN y = False"
| "number_le x NaN = False"
| "number_le NegInf y = True"
| "number_le x PosInf = True"
| "number_le x NegInf = False"
| "number_le PosInf y = False"
| "number_le (Finite x) (Finite y) = (x \<le> y)"

section \<open>Tables\<close>

text \<open>
  A table is the list of its rows, in their order. A row of the stock table has the
  stock code and the four indicators; the rest of the record scheme stands for whatever
  other columns the loaded sheet has. The result table has exactly the five columns, so
  its rows are of the plain record type and the projection onto the five columns is
  \<open>stock_row.truncate\<close>. The row labels a DataFrame carries along are left out:
  the function never reads them.
\<close>

record stock_row =
  code :: string
  K :: number
  D :: number
  J :: number
  RSI :: number

type_synonym 'a data_frame = "'a stock_row_scheme list"

text \<open>
  A comparison of a column with a constant gives a column of booleans, one per row:
  \<^verbatim>\<open>s < c\<close>, \<^verbatim>\<open>s > c\<close>, \<^verbatim>\<open>s >= c\<close>, \<^verbatim>\<open>s <= c\<close>.
\<close>

definition series_lt :: "number list \<Rightarrow> number \<Rightarrow> bool list" where
  "series_lt s c = map (\<lambda>x. number_lt x c) s"

definition series_gt :: "number list \<Rightarrow> number \<Rightarrow> bool list" where
  "series_gt s c = map (\<lambda>x. number_lt c x) s"

definition series_ge :: "number list \<Rightarrow> number \<Rightarrow> bool list" where
  "series_ge s c = map (\<lambda>x. number_le c x) s"

definition series_le :: "number list \<Rightarrow> number \<Rightarrow> bool list" where
  "series_le s c = map (\<lambda>x. number_le x c) s"

text \<open>\<^verbatim>\<open>m1 & m2\<close>, position by position.\<close>

definition series_and :: "bool list \<Rightarrow> bool list \<Rightarrow> bool list" where
  "series_and m1 m2 = map2 (\<and>) m1 m2"

text \<open>\<^verbatim>\<open>s.between(left, right)\<close>: both ends inclusive, \<^verbatim>\<open>(s >= left) & (s <= right)\<close>.\<close>

definition between :: "number list \<Rightarrow> number \<Rightarrow> number \<Rightarrow> bool list" where
  "between s left right = series_and (series_ge s left) (series_le s right)"

text \<open>\<^verbatim>\<open>df[mask]\<close>: the rows whose mask entry is true, in their order.\<close>

definition getitem_mask :: "'r list \<Rightarrow> bool list \<Rightarrow> 'r list" where
  "getitem_mask df m = map fst (filter snd (zip df m))"

text \<open>
  \<^verbatim>\<open>df.duplicated()\<close> marks a row when an equal row stands before it;
  \<^verbatim>\<open>df.drop_duplicates()\<close> is \<^verbatim>\<open>df[~df.duplicated()]\<close>. Rows are equal
  when all their cells are, two missing values counting as equal.
\<close>

fun duplicated_from :: "'r list \<Rightarrow> 'r list \<Rightarrow> bool list" where
  "duplicated_from seen [] = []"
| "duplicated_from seen (r # rs) = (r \<in> set seen) # duplicated_from (r # seen) rs"

definition duplicated :: "'r list \<Rightarrow> bool list" where
  "duplicated df = duplicated_from [] df"

definition drop_duplicates :: "'r list \<Rightarrow> 'r list" where
  "drop_duplicates df = getitem_mask df (map Not (duplicated df))"

section \<open>The filter\<close>

text \<open>
  The strings the program compares its arguments with, as their UTF-8 bytes: the three
  risk preferences (risk averse, neutral, risk seeking) and the two marital statuses
  (married, unmarried).
\<close>

definition risk_averse :: string where
  "risk_averse = [CHR 0xE5, CHR 0x8E, CHR 0x8C, CHR 0xE6, CHR 0x81, CHR 0xB6,
                  CHR 0xE9, CHR 0xA3, CHR 0x8E, CHR 0xE9, CHR 0x99, CHR 0xA9]"

definition risk_neutral :: string where
  "risk_neutral = [CHR 0xE4, CHR 0xB8, CHR 0xAD, CHR 0xE7, CHR 0xAB, CHR 0x8B]"

definition risk_seeking :: string where
  "risk_seeking = [CHR 0xE5, CHR 0x81, CHR 0x8F, CHR 0xE7, CHR 0x88, CHR 0xB1,
                   CHR 0xE9, CHR 0xA3, CHR 0x8E, CHR 0xE9, CHR 0x99, CHR 0xA9]"

definition married :: string where
  "married = [CHR 0xE5, CHR 0xB7, CHR 0xB2, CHR 0xE5, CHR 0xA9, CHR 0x9A]"

definition unmarried :: string where
  "unmarried = [CHR 0xE6, CHR 0x9C, CHR 0xAA, CHR 0xE5, CHR 0xA9, CHR 0x9A]"

datatype error = ValueError

text \<open>Lines 13 to 24: the rows kept for the risk preference, or the error.\<close>

definition filter_risk_preference :: "'a data_frame \<Rightarrow> string \<Rightarrow> error + 'a data_frame" where
  "filter_risk_preference df risk_preference =
    (if risk_preference = risk_averse then
       Inr (getitem_mask df
         (series_and (series_and (series_and
            (series_lt (map K df) (Finite 30)) (series_lt (map D df) (Finite 30)))
            (series_lt (map J df) (Finite 30))) (series_lt (map RSI df) (Finite 50))))
     else if risk_preference = risk_neutral then
       Inr (getitem_mask df
         (series_and (series_and (series_and
            (between (map K df) (Finite 30) (Finite 70)) (between (map D df) (Finite 30) (Finite 70)))
            (between (map J df) (Finite 30) (Finite 70))) (between (map RSI df) (Finite 30) (Finite 70))))
     else if risk_preference = risk_seeking then
       Inr (getitem_mask df
         (series_and (series_and (series_and
            (series_gt (map K df) (Finite 70)) (series_gt (map D df) (Finite 70)))
            (series_gt (map J df) (Finite 70))) (series_gt (map RSI df) (Finite 50))))
     else Inl ValueError)"

text \<open>Lines 27 to 32.\<close>

definition filter_asset_size :: "'a data_frame \<Rightarrow> number \<Rightarrow> 'a data_frame" where
  "filter_asset_size filtered asset_size =
    (if number_lt asset_size (Finite 100000) then
       getitem_mask filtered (series_lt (map RSI filtered) (Finite 30))
     else if number_le (Finite 100000) asset_size \<and> number_lt asset_size (Finite 1000000) then
       getitem_mask filtered (between (map RSI filtered) (Finite 30) (Finite 70))
     else
       getitem_mask filtered (series_gt (map RSI filtered) (Finite 70)))"

text \<open>Lines 35 to 40: any other marital status leaves the table as it is.\<close>

definition filter_marital_status :: "'a data_frame \<Rightarrow> string \<Rightarrow> 'a data_frame" where
  "filter_marital_status filtered marital_status =
    (if marital_status = married then
       getitem_mask filtered (series_lt (map RSI filtered) (Finite 50))
     else if marital_status = unmarried then
       getitem_mask filtered (series_ge (map RSI filtered) (Finite 50))
     else filtered)"

text \<open>Lines 43 to 48.\<close>

definition filter_expected_return :: "'a data_frame \<Rightarrow> number \<Rightarrow> 'a data_frame" where
  "filter_expected_return filtered expected_return =
    (if number_lt expected_return (Finite 5) then
       getitem_mask filtered (series_lt (map RSI filtered) (Finite 30))
     else if number_le (Finite 5) expected_return \<and> number_lt expected_return (Finite 10) then
       getitem_mask filtered (between (map RSI filtered) (Finite 30) (Finite 70))
     else
       getitem_mask filtered (series_gt (map RSI filtered) (Finite 70)))"

text \<open>
  The whole function: the four steps in their order, each on the table the one before
  left, then the five columns and \<^verbatim>\<open>drop_duplicates\<close> (line 50). The error of the first
  step ends the call before any later step.
\<close>

definition filter_stocks ::
  "'a data_frame \<Rightarrow> string \<Rightarrow> number \<Rightarrow> string \<Rightarrow> number \<Rightarrow> error + stock_row list" where
  "filter_stocks df risk_preference asset_size marital_status expected_return =
    (case filter_risk_preference df risk_preference of
       Inl e \<Rightarrow> Inl e
     | Inr filtered1 \<Rightarrow>
         let filtered2 = filter_asset_size filtered1 asset_size;
             filtered3 = filter_marital_status filtered2 marital_status;
             filtered4 = filter_expected_return filtered3 expected_return
         in Inr (drop_duplicates (map stock_row.truncate filtered4)))"

text \<open>
  What each step asks of the RSI of one row, read off the branch the step takes: the
  RSI part of the mask of lines 13 to 22, and the masks of lines 27 to 32, 35 to 40 and
  43 to 48. For an asset size or an expected return that is a number, the last branch is
  the one for a value of at least 1000000, or of at least 10 (\<open>number_top_bracket\<close> below).
  A risk preference the function does not know admits no row: the call raises the error.
\<close>

abbreviation risk_rsi_constraint :: "string \<Rightarrow> number \<Rightarrow> bool" where
  "risk_rsi_constraint risk_preference x \<equiv>
     (if risk_preference = risk_averse then number_lt x (Finite 50)
      else if risk_preference = risk_neutral then number_le (Finite 30) x \<and> number_le x (Finite 70)
      else if risk_preference = risk_seeking then number_lt (Finite 50) x
      else False)"

abbreviation asset_rsi_constraint :: "number \<Rightarrow> number \<Rightarrow> bool" where
  "asset_rsi_constraint asset_size x \<equiv>
     (if number_lt asset_size (Finite 100000) then number_lt x (Finite 30)
      else if number_le (Finite 100000) asset_size \<and> number_lt asset_size (Finite 1000000)
        then number_le (Finite 30) x \<and> number_le x (Finite 70)
      else number_lt (Finite 70) x)"

abbreviation marital_rsi_constraint :: "string \<Rightarrow> number \<Rightarrow> bool" where
  "marital_rsi_constraint marital_status x \<equiv>
     (if marital_status = married then number_lt x (Finite 50)
      else if marital_status = unmarried then number_le (Finite 50) x
      else True)"

abbreviation return_rsi_constraint :: "number \<Rightarrow> number \<Rightarrow> bool" where
  "return_rsi_constraint expected_return x \<equiv>
     (if number_lt expected_return (Finite 5) then number_lt x (Finite 30)
      else if number_le (Finite 5) expected_return \<and> number_lt expected_return (Finite 10)
        then number_le (Finite 30) x \<and> number_le x (Finite 70)
      else number_lt (Finite 70) x)"

section \<open>Facts about the comparisons and the masks\<close>

lemma number_lt_not_le: "number_lt x y \<Longrightarrow> \<not> number_le y x"
  by (cases x; cases y) auto

lemma getitem_mask_map: "getitem_mask df (map P df) = filter P df"
  by (induction df) (simp_all add: getitem_mask_def)

lemma series_and_map: "series_and (map P xs) (map Q xs) = map (\<lambda>x. P x \<and> Q x) xs"
  by (simp add: series_and_def map2_map_map)

lemma series_lt_col: "series_lt (map f df) c = map (\<lambda>r. number_lt (f r) c) df"
  by (simp add: series_lt_def comp_def)

lemma series_gt_col: "series_gt (map f df) c = map (\<lambda>r. number_lt c (f r)) df"
  by (simp add: series_gt_def comp_def)

lemma series_ge_col: "series_ge (map f df) c = map (\<lambda>r. number_le c (f r)) df"
  by (simp add: series_ge_def comp_def)

lemma series_le_col: "series_le (map f df) c = map (\<lambda>r. number_le (f r) c) df"
  by (simp add: series_le_def comp_def)

lemma between_col:
  "between (map f df) lo hi = map (\<lambda>r. number_le lo (f r) \<and> number_le (f r) hi) df"
  by (simp add: between_def series_ge_col series_le_col series_and_map)

lemmas mask_simps = series_lt_col series_gt_col series_ge_col between_col series_and_map
  getitem_mask_map

lemma risk_strings_distinct:
  "risk_averse \<noteq> risk_neutral" "risk_averse \<noteq> risk_seeking" "risk_neutral \<noteq> risk_seeking"
  "risk_neutral \<noteq> risk_averse" "risk_seeking \<noteq> risk_averse" "risk_seeking \<noteq> risk_neutral"
  by (simp_all add: risk_averse_def risk_neutral_def risk_seeking_def)

lemma marital_strings_distinct: "married \<noteq> unmarried" "unmarried \<noteq> married"
  by (simp_all add: married_def unmarried_def)

lemma filter_risk_preference_averse:
  "filter_risk_preference df risk_averse =
     Inr (filter (\<lambda>r. number_lt (K r) (Finite 30) \<and> number_lt (D r) (Finite 30) \<and>
                      number_lt (J r) (Finite 30) \<and> number_lt (RSI r) (Finite 50)) df)"
  by (simp add: filter_risk_preference_def mask_simps conj_ac)

lemma filter_risk_preference_neutral:
  "filter_risk_preference df risk_neutral =
     Inr (filter (\<lambda>r. (number_le (Finite 30) (K r) \<and> number_le (K r) (Finite 70)) \<and>
                      (number_le (Finite 30) (D r) \<and> number_le (D r) (Finite 70)) \<and>
                      (number_le (Finite 30) (J r) \<and> number_le (J r) (Finite 70)) \<and>
                      (number_le (Finite 30) (RSI r) \<and> number_le (RSI r) (Finite 70))) df)"
  by (simp add: filter_risk_preference_def mask_simps risk_strings_distinct conj_ac)

lemma filter_risk_preference_seeking:
  "filter_risk_preference df risk_seeking =
     Inr (filter (\<lambda>r. number_lt (Finite 70) (K r) \<and> number_lt (Finite 70) (D r) \<and>
                      number_lt (Finite 70) (J r) \<and> number_lt (Finite 50) (RSI r)) df)"
  by (simp add: filter_risk_preference_def mask_simps risk_strings_distinct conj_ac)

lemma filter_risk_preference_other:
  "rp \<notin> {risk_averse, risk_neutral, risk_seeking} \<Longrightarrow> filter_risk_preference df rp = Inl ValueError"
  by (simp add: filter_risk_preference_def)

section \<open>Facts about \<open>drop_duplicates\<close>\<close>

text \<open>
  The facts are proved for any list of rows already seen, which is what the scan of
  \<open>duplicated_from\<close> carries along.
\<close>

lemma drop_from_Cons:
  "getitem_mask (r # rs) (map Not (duplicated_from seen (r # rs))) =
     (if r \<in> set seen then getitem_mask rs (map Not (duplicated_from (r # seen) rs))
      else r # getitem_mask rs (map Not (duplicated_from (r # seen) rs)))"
  by (simp add: getitem_mask_def)

lemma set_drop_from:
  "set (getitem_mask rs (map Not (duplicated_from seen rs))) = set rs - set seen"
proof (induction rs arbitrary: seen)
  case Nil
  show ?case by (simp add: getitem_mask_def)
next
  case (Cons r rs)
  show ?case unfolding drop_from_Cons using Cons.IH [of "r # seen"] by auto
qed

lemma distinct_drop_from:
  "distinct (getitem_mask rs (map Not (duplicated_from seen rs)))"
proof (induction rs arbitrary: seen)
  case Nil
  show ?case by (simp add: getitem_mask_def)
next
  case (Cons r rs)
  show ?case unfolding drop_from_Cons
    using Cons.IH [of "r # seen"] by (simp add: set_drop_from)
qed

lemma first_positions_Cons:
  "filter (\<lambda>i. (r # rs) ! i \<notin> set seen \<and> (\<forall>j<i. (r # rs) ! j \<noteq> (r # rs) ! i)) [0..<Suc (length rs)] =
     (if r \<in> set seen then [] else [0]) @
     map Suc (filter (\<lambda>i. rs ! i \<notin> set (r # seen) \<and> (\<forall>j<i. rs ! j \<noteq> rs ! i)) [0..<length rs])"
proof -
  have "[0..<Suc (length rs)] = 0 # map Suc [0..<length rs]"
    by (simp add: upt_conv_Cons map_Suc_upt del: upt_Suc)
  then show ?thesis
    by (auto simp add: filter_map comp_def All_less_Suc2 simp del: upt_Suc intro!: filter_cong)
qed

lemma drop_from_positions:
  "getitem_mask rs (map Not (duplicated_from seen rs)) =
     map ((!) rs) (filter (\<lambda>i. rs ! i \<notin> set seen \<and> (\<forall>j<i. rs ! j \<noteq> rs ! i)) [0..<length rs])"
proof (induction rs arbitrary: seen)
  case Nil
  show ?case by (simp add: getitem_mask_def)
next
  case (Cons r rs)
  show ?case
    unfolding drop_from_Cons length_Cons first_positions_Cons
    using Cons.IH [of "r # seen"] by (simp add: comp_def)
qed

lemma set_drop_duplicates: "set (drop_duplicates df) = set df"
  by (simp add: drop_duplicates_def duplicated_def set_drop_from)

lemma distinct_drop_duplicates: "distinct (drop_duplicates df)"
  by (simp add: drop_duplicates_def duplicated_def distinct_drop_from)

lemma drop_duplicates_positions:
  "drop_duplicates df = map ((!) df) (filter (\<lambda>i. \<forall>j<i. df ! j \<noteq> df ! i) [0..<length df])"
  by (simp add: drop_duplicates_def duplicated_def drop_from_positions)

lemma count_list_distinct: "distinct xs \<Longrightarrow> x \<in> set xs \<Longrightarrow> count_list xs x = 1"
  by (induction xs) auto

lemma count_drop_duplicates: "r \<in> set df \<Longrightarrow> count_list (drop_duplicates df) r = 1"
  by (simp add: count_list_distinct distinct_drop_duplicates set_drop_duplicates)

section \<open>Facts about the four steps\<close>

lemma number_top_bracket:
  "a \<noteq> NaN \<Longrightarrow> c1 \<le> c2 \<Longrightarrow>
     (\<not> number_lt a (Finite c1) \<and> \<not> (number_le (Finite c1) a \<and> number_lt a (Finite c2)))
       = number_le (Finite c2) a"
  by (cases a) auto

lemma number_le_top_bracket:
  "number_le (Finite c2) a \<Longrightarrow> c1 \<le> c2 \<Longrightarrow> \<not> number_lt a (Finite c1) \<and> \<not> number_lt a (Finite c2)"
  by (cases a) auto

lemma filter_asset_size_filter:
  "filter_asset_size rows a = filter (\<lambda>r. asset_rsi_constraint a (RSI r)) rows"
  by (auto simp add: filter_asset_size_def mask_simps)

lemma filter_marital_status_filter:
  "filter_marital_status rows m = filter (\<lambda>r. marital_rsi_constraint m (RSI r)) rows"
  by (simp add: filter_marital_status_def mask_simps)

lemma filter_expected_return_filter:
  "filter_expected_return rows e = filter (\<lambda>r. return_rsi_constraint e (RSI r)) rows"
  by (auto simp add: filter_expected_return_def mask_simps)

lemma filter_risk_preference_recognised:
  assumes "rp \<in> {risk_averse, risk_neutral, risk_seeking}"
  shows "\<exists>f1. filter_risk_preference df rp = Inr f1 \<and> set f1 \<subseteq> set df \<and>
              (\<forall>r\<in>set f1. risk_rsi_constraint rp (RSI r))"
  using assms
  by (auto simp add: filter_risk_preference_averse filter_risk_preference_neutral
        filter_risk_preference_seeking risk_strings_distinct)

lemma filter_stocks_pipeline:
  "filter_risk_preference df rp = Inr f1 \<Longrightarrow>
     filter_stocks df rp a m e =
       Inr (drop_duplicates (map stock_row.truncate
         (filter_expected_return (filter_marital_status (filter_asset_size f1 a) m) e)))"
  by (simp add: filter_stocks_def)

lemma survivors_filter:
  "filter_expected_return (filter_marital_status (filter_asset_size f1 a) m) e =
     filter (\<lambda>r. asset_rsi_constraint a (RSI r) \<and> marital_rsi_constraint m (RSI r) \<and>
                  return_rsi_constraint e (RSI r)) f1"
  unfolding filter_asset_size_filter filter_marital_status_filter filter_expected_return_filter
  by (simp add: conj_ac)

lemma RSI_truncate: "RSI (stock_row.truncate r) = RSI r"
  by (simp add: stock_row.truncate_def)

lemma truncate_fields:
  "code (stock_row.truncate r) = code r" "K (stock_row.truncate r) = K r"
  "D (stock_row.truncate r) = D r" "J (stock_row.truncate r) = J r"
  by (simp_all add: stock_row.truncate_def)

text \<open>
  For an asset size or an expected return that is a number, the branch a step takes is
  the bracket the value lies in.
\<close>

lemma asset_rsi_constraint_brackets:
  "asset_rsi_constraint a x \<Longrightarrow>
     (number_lt a (Finite 100000) \<longrightarrow> number_lt x (Finite 30)) \<and>
     (number_le (Finite 100000) a \<and> number_lt a (Finite 1000000) \<longrightarrow>
        number_le (Finite 30) x \<and> number_le x (Finite 70)) \<and>
     (number_le (Finite 1000000) a \<longrightarrow> number_lt (Finite 70) x)"
  by (cases a) (auto split: if_splits)

lemma return_rsi_constraint_brackets:
  "return_rsi_constraint e x \<Longrightarrow>
     (number_lt e (Finite 5) \<longrightarrow> number_lt x (Finite 30)) \<and>
     (number_le (Finite 5) e \<and> number_lt e (Finite 10) \<longrightarrow>
        number_le (Finite 30) x \<and> number_le x (Finite 70)) \<and>
     (number_le (Finite 10) e \<longrightarrow> number_lt (Finite 70) x)"
  by (cases e) (auto split: if_splits)

text \<open>The definitions a run on a concrete table unfolds.\<close>

lemmas run_defs = filter_stocks_def filter_risk_preference_def filter_asset_size_def
  filter_marital_status_def filter_expected_return_def getitem_mask_def series_and_def
  series_lt_def series_gt_def series_ge_def series_le_def between_def drop_duplicates_def
  duplicated_def risk_averse_def risk_neutral_def risk_seeking_def married_def unmarried_def
  stock_row.truncate_def

lemma survivors_subset:
  "set (filter_expected_return (filter_marital_status (filter_asset_size f1 a) m) e) \<subseteq> set f1"
  unfolding survivors_filter by auto

section \<open>The claims\<close>

text \<open>
  C1. For every table and every profile whose risk preference is one of the three the
  function knows, the call returns a table, and every row of it is a row of the input
  table projected onto the five columns (code, K, D, J, RSI): no row is in the output
  that is not in the input.
\<close>

theorem result_rows_are_input_rows:
  assumes "rp \<in> {risk_averse, risk_neutral, risk_seeking}"
  shows "\<exists>res. filter_stocks df rp a m e = Inr res \<and> set res \<subseteq> stock_row.truncate ` set df"
proof -
  from filter_risk_preference_recognised [OF assms, of df]
  obtain f1 where f1: "filter_risk_preference df rp = Inr f1" and sub: "set f1 \<subseteq> set df"
    by blast
  let ?surv = "filter_expected_return (filter_marital_status (filter_asset_size f1 a) m) e"
  have "set ?surv \<subseteq> set df"
    using survivors_subset [of f1 a m e] sub by blast
  then have "set (drop_duplicates (map stock_row.truncate ?surv)) \<subseteq> stock_row.truncate ` set df"
    by (auto simp add: set_drop_duplicates)
  with filter_stocks_pipeline [OF f1, of a m e] show ?thesis by simp
qed

theorem result_rows_are_input_rows_witness:
  "risk_neutral \<in> {risk_averse, risk_neutral, risk_seeking} \<and>
   filter_stocks
     [\<lparr>code = ''001'', K = Finite 20, D = Finite 20, J = Finite 20, RSI = Finite 40, \<dots> = ''bank''\<rparr>,
      \<lparr>code = ''002'', K = Finite 50, D = Finite 50, J = Finite 50, RSI = Finite 50, \<dots> = ''steel''\<rparr>]
     risk_neutral (Finite 500000) unmarried (Finite 7)
     = Inr [\<lparr>code = ''002'', K = Finite 50, D = Finite 50, J = Finite 50, RSI = Finite 50\<rparr>] \<and>
   \<lparr>code = ''002'', K = Finite 50, D = Finite 50, J = Finite 50, RSI = Finite 50\<rparr>
     \<in> stock_row.truncate `
       set [\<lparr>code = ''001'', K = Finite 20, D = Finite 20, J = Finite 20, RSI = Finite 40, \<dots> = ''bank''\<rparr>,
            \<lparr>code = ''002'', K = Finite 50, D = Finite 50, J = Finite 50, RSI = Finite 50, \<dots> = ''steel''\<rparr>]"
proof -
  have h: "risk_neutral \<in> {risk_averse, risk_neutral, risk_seeking}" by simp
  show ?thesis
    using h result_rows_are_input_rows [OF h,
      of "[\<lparr>code = ''001'', K = Finite 20, D = Finite 20, J = Finite 20, RSI = Finite 40, \<dots> = ''bank''\<rparr>,
           \<lparr>code = ''002'', K = Finite 50, D = Finite 50, J = Finite 50, RSI = Finite 50, \<dots> = ''steel''\<rparr>]"
         "Finite 500000" unmarried "Finite 7"]
    by (simp add: run_defs)
qed

text \<open>
  C2. For every table and every profile with a recognised risk preference, the RSI of
  every row of the result meets the RSI constraints of all four steps at once (risk
  preference, asset size, marital status, expected return); and when no RSI value can
  meet the four together, the result is the empty table, returned without an error.
\<close>

theorem result_rsi_meets_all_constraints:
  assumes "rp \<in> {risk_averse, risk_neutral, risk_seeking}"
  shows "\<exists>res. filter_stocks df rp a m e = Inr res \<and>
           (\<forall>r\<in>set res. risk_rsi_constraint rp (RSI r) \<and> asset_rsi_constraint a (RSI r) \<and>
                          marital_rsi_constraint m (RSI r) \<and> return_rsi_constraint e (RSI r)) \<and>
           ((\<forall>x. \<not> (risk_rsi_constraint rp x \<and> asset_rsi_constraint a x \<and>
                      marital_rsi_constraint m x \<and> return_rsi_constraint e x)) \<longrightarrow> res = [])"
proof -
  from filter_risk_preference_recognised [OF assms, of df]
  obtain f1 where f1: "filter_risk_preference df rp = Inr f1"
    and risk: "\<forall>r\<in>set f1. risk_rsi_constraint rp (RSI r)"
    by blast
  let ?surv = "filter_expected_return (filter_marital_status (filter_asset_size f1 a) m) e"
  let ?res = "drop_duplicates (map stock_row.truncate ?surv)"
  have res: "filter_stocks df rp a m e = Inr ?res"
    by (rule filter_stocks_pipeline [OF f1])
  have all: "risk_rsi_constraint rp (RSI r) \<and> asset_rsi_constraint a (RSI r) \<and>
             marital_rsi_constraint m (RSI r) \<and> return_rsi_constraint e (RSI r)"
    if "r \<in> set ?res" for r
  proof -
    from that obtain r' where r': "r' \<in> set ?surv" and r: "r = stock_row.truncate r'"
      by (auto simp add: set_drop_duplicates)
    have eq: "RSI r = RSI r'" by (simp add: r RSI_truncate)
    from r' have in_f1: "r' \<in> set f1"
      and later: "asset_rsi_constraint a (RSI r') \<and>
        marital_rsi_constraint m (RSI r') \<and> return_rsi_constraint e (RSI r')"
      unfolding survivors_filter set_filter by blast+
    from risk in_f1 have first: "risk_rsi_constraint rp (RSI r')" by (rule bspec)
    from first later show ?thesis unfolding eq by (rule conjI)
  qed
  have "?res = []"
    if "\<forall>x. \<not> (risk_rsi_constraint rp x \<and> asset_rsi_constraint a x \<and>
                  marital_rsi_constraint m x \<and> return_rsi_constraint e x)"
  proof (cases ?res)
    case Nil
    then show ?thesis .
  next
    case (Cons r rs)
    then have "r \<in> set ?res" by simp
    from all [OF this] that show ?thesis by blast
  qed
  with res all show ?thesis by blast
qed

theorem result_rsi_meets_all_constraints_witness:
  "risk_neutral \<in> {risk_averse, risk_neutral, risk_seeking} \<and>
   filter_stocks
     [\<lparr>code = ''001'', K = Finite 20, D = Finite 20, J = Finite 20, RSI = Finite 40\<rparr>,
      \<lparr>code = ''002'', K = Finite 50, D = Finite 50, J = Finite 50, RSI = Finite 50\<rparr>]
     risk_neutral (Finite 500000) unmarried (Finite 7)
     = Inr [\<lparr>code = ''002'', K = Finite 50, D = Finite 50, J = Finite 50, RSI = Finite 50\<rparr>] \<and>
   risk_rsi_constraint risk_neutral (Finite 50) \<and>
   asset_rsi_constraint (Finite 500000) (Finite 50) \<and>
   marital_rsi_constraint unmarried (Finite 50) \<and>
   return_rsi_constraint (Finite 7) (Finite 50) \<and>
   risk_averse \<in> {risk_averse, risk_neutral, risk_seeking} \<and>
   (\<forall>x. \<not> (risk_rsi_constraint risk_averse x \<and> asset_rsi_constraint (Finite 5000000) x \<and>
             marital_rsi_constraint married x \<and> return_rsi_constraint (Finite 3) x)) \<and>
   filter_stocks
     [\<lparr>code = ''001'', K = Finite 20, D = Finite 20, J = Finite 20, RSI = Finite 40\<rparr>,
      \<lparr>code = ''003'', K = Finite 80, D = Finite 80, J = Finite 80, RSI = Finite 80\<rparr>]
     risk_averse (Finite 5000000) married (Finite 3) = Inr []"
proof -
  have h1: "risk_neutral \<in> {risk_averse, risk_neutral, risk_seeking}" by simp
  have h2: "risk_averse \<in> {risk_averse, risk_neutral, risk_seeking}" by simp
  have h3: "\<not> (risk_rsi_constraint risk_averse x \<and> asset_rsi_constraint (Finite 5000000) x \<and>
             marital_rsi_constraint married x \<and> return_rsi_constraint (Finite 3) x)" for x
    by (cases x) simp_all
  show ?thesis
    using h1 h2 h3
      result_rsi_meets_all_constraints [OF h1,
        of "[\<lparr>code = ''001'', K = Finite 20, D = Finite 20, J = Finite 20, RSI = Finite 40\<rparr>,
             \<lparr>code = ''002'', K = Finite 50, D = Finite 50, J = Finite 50, RSI = Finite 50\<rparr>]"
           "Finite 500000" unmarried "Finite 7"]
      result_rsi_meets_all_constraints [OF h2,
        of "[\<lparr>code = ''001'', K = Finite 20, D = Finite 20, J = Finite 20, RSI = Finite 40\<rparr>,
             \<lparr>code = ''003'', K = Finite 80, D = Finite 80, J = Finite 80, RSI = Finite 80\<rparr>]"
           "Finite 5000000" married "Finite 3"]
    by (simp add: run_defs)
qed

text \<open>
  C3. The call fails with the value error exactly when the risk preference is not one
  of the three strings the function knows, whatever the table, the empty table included;
  and a call that fails returns no table, while every other call returns one.
\<close>

theorem value_error_iff_unrecognised:
  "(filter_stocks df rp a m e = Inl ValueError) = (rp \<notin> {risk_averse, risk_neutral, risk_seeking}) \<and>
   (\<exists>res. filter_stocks df rp a m e = Inr res) = (rp \<in> {risk_averse, risk_neutral, risk_seeking})"
proof (cases "rp \<in> {risk_averse, risk_neutral, risk_seeking}")
  case True
  from filter_risk_preference_recognised [OF True, of df]
  obtain f1 where "filter_risk_preference df rp = Inr f1" by blast
  from filter_stocks_pipeline [OF this, of a m e] True show ?thesis by simp
next
  case False
  then have "filter_risk_preference df rp = Inl ValueError"
    by (rule filter_risk_preference_other)
  then have "filter_stocks df rp a m e = Inl ValueError"
    by (simp add: filter_stocks_def)
  with False show ?thesis by simp
qed

theorem value_error_iff_unrecognised_witness:
  "''unknown'' \<notin> {risk_averse, risk_neutral, risk_seeking} \<and>
   filter_stocks
     [\<lparr>code = ''002'', K = Finite 50, D = Finite 50, J = Finite 50, RSI = Finite 50\<rparr>]
     ''unknown'' (Finite 500000) unmarried (Finite 7) = Inl ValueError \<and>
   filter_stocks ([] :: stock_row list) ''unknown'' (Finite 500000) unmarried (Finite 7) = Inl ValueError \<and>
   risk_neutral \<in> {risk_averse, risk_neutral, risk_seeking} \<and>
   filter_stocks ([] :: stock_row list) risk_neutral (Finite 500000) unmarried (Finite 7) = Inr []"
  using
    value_error_iff_unrecognised
      [of "[\<lparr>code = ''002'', K = Finite 50, D = Finite 50, J = Finite 50, RSI = Finite 50\<rparr>]"
          "''unknown''" "Finite 500000" unmarried "Finite 7"]
    value_error_iff_unrecognised
      [of "[] :: stock_row list" "''unknown''" "Finite 500000" unmarried "Finite 7"]
    value_error_iff_unrecognised
      [of "[] :: stock_row list" risk_neutral "Finite 500000" unmarried "Finite 7"]
  by (simp add: run_defs)

text \<open>
  C4. The first step keeps exactly the rows that satisfy the predicate of the risk
  preference: for the risk averse, K < 30, D < 30, J < 30 and RSI < 50; for the neutral,
  K, D, J and RSI each between 30 and 70 with both ends included; for the risk seeking,
  K > 70, D > 70, J > 70 and RSI > 50.
\<close>

theorem risk_step_keeps_exactly:
  "filter_risk_preference df risk_averse =
     Inr (filter (\<lambda>r. number_lt (K r) (Finite 30) \<and> number_lt (D r) (Finite 30) \<and>
                      number_lt (J r) (Finite 30) \<and> number_lt (RSI r) (Finite 50)) df) \<and>
   filter_risk_preference df risk_neutral =
     Inr (filter (\<lambda>r. (number_le (Finite 30) (K r) \<and> number_le (K r) (Finite 70)) \<and>
                      (number_le (Finite 30) (D r) \<and> number_le (D r) (Finite 70)) \<and>
                      (number_le (Finite 30) (J r) \<and> number_le (J r) (Finite 70)) \<and>
                      (number_le (Finite 30) (RSI r) \<and> number_le (RSI r) (Finite 70))) df) \<and>
   filter_risk_preference df risk_seeking =
     Inr (filter (\<lambda>r. number_lt (Finite 70) (K r) \<and> number_lt (Finite 70) (D r) \<and>
                      number_lt (Finite 70) (J r) \<and> number_lt (Finite 50) (RSI r)) df)"
  by (intro conjI filter_risk_preference_averse filter_risk_preference_neutral
        filter_risk_preference_seeking)

theorem risk_step_keeps_exactly_witness:
  "filter_risk_preference
     [\<lparr>code = ''001'', K = Finite 20, D = Finite 20, J = Finite 20, RSI = Finite 40\<rparr>,
      \<lparr>code = ''002'', K = Finite 30, D = Finite 70, J = Finite 50, RSI = Finite 70\<rparr>,
      \<lparr>code = ''003'', K = Finite 80, D = Finite 80, J = Finite 80, RSI = Finite 60\<rparr>,
      \<lparr>code = ''004'', K = Finite 20, D = Finite 20, J = Finite 30, RSI = Finite 40\<rparr>,
      \<lparr>code = ''005'', K = Finite 80, D = Finite 80, J = Finite 80, RSI = Finite 50\<rparr>]
     risk_averse
     = Inr [\<lparr>code = ''001'', K = Finite 20, D = Finite 20, J = Finite 20, RSI = Finite 40\<rparr>] \<and>
   filter_risk_preference
     [\<lparr>code = ''001'', K = Finite 20, D = Finite 20, J = Finite 20, RSI = Finite 40\<rparr>,
      \<lparr>code = ''002'', K = Finite 30, D = Finite 70, J = Finite 50, RSI = Finite 70\<rparr>,
      \<lparr>code = ''003'', K = Finite 80, D = Finite 80, J = Finite 80, RSI = Finite 60\<rparr>,
      \<lparr>code = ''004'', K = Finite 20, D = Finite 20, J = Finite 30, RSI = Finite 40\<rparr>,
      \<lparr>code = ''005'', K = Finite 80, D = Finite 80, J = Finite 80, RSI = Finite 50\<rparr>]
     risk_neutral
     = Inr [\<lparr>code = ''002'', K = Finite 30, D = Finite 70, J = Finite 50, RSI = Finite 70\<rparr>] \<and>
   filter_risk_preference
     [\<lparr>code = ''001'', K = Finite 20, D = Finite 20, J = Finite 20, RSI = Finite 40\<rparr>,
      \<lparr>code = ''002'', K = Finite 30, D = Finite 70, J = Finite 50, RSI = Finite 70\<rparr>,
      \<lparr>code = ''003'', K = Finite 80, D = Finite 80, J = Finite 80, RSI = Finite 60\<rparr>,
      \<lparr>code = ''004'', K = Finite 20, D = Finite 20, J = Finite 30, RSI = Finite 40\<rparr>,
      \<lparr>code = ''005'', K = Finite 80, D = Finite 80, J = Finite 80, RSI = Finite 50\<rparr>]
     risk_seeking
     = Inr [\<lparr>code = ''003'', K = Finite 80, D = Finite 80, J = Finite 80, RSI = Finite 60\<rparr>]"
  using risk_step_keeps_exactly
    [of "[\<lparr>code = ''001'', K = Finite 20, D = Finite 20, J = Finite 20, RSI = Finite 40\<rparr>,
          \<lparr>code = ''002'', K = Finite 30, D = Finite 70, J = Finite 50, RSI = Finite 70\<rparr>,
          \<lparr>code = ''003'', K = Finite 80, D = Finite 80, J = Finite 80, RSI = Finite 60\<rparr>,
          \<lparr>code = ''004'', K = Finite 20, D = Finite 20, J = Finite 30, RSI = Finite 40\<rparr>,
          \<lparr>code = ''005'', K = Finite 80, D = Finite 80, J = Finite 80, RSI = Finite 50\<rparr>]"]
  by simp

text \<open>
  C5. The second step keeps, of the rows it is given (in \<open>filter_stocks\<close> the rows
  the first step kept), exactly those whose RSI fits the bracket of the asset size:
  RSI < 30 for an asset size below 100000, RSI between 30 and 70 for an asset size from
  100000 to below 1000000, RSI > 70 for an asset size of 1000000 or more. Every asset
  size below 100000, zero and the negative ones included, goes to the bracket RSI < 30.
\<close>

theorem asset_size_step_keeps_exactly:
  "(number_lt a (Finite 100000) \<longrightarrow>
      filter_asset_size rows a = filter (\<lambda>r. number_lt (RSI r) (Finite 30)) rows) \<and>
   (number_le (Finite 100000) a \<and> number_lt a (Finite 1000000) \<longrightarrow>
      filter_asset_size rows a =
        filter (\<lambda>r. number_le (Finite 30) (RSI r) \<and> number_le (RSI r) (Finite 70)) rows) \<and>
   (number_le (Finite 1000000) a \<longrightarrow>
      filter_asset_size rows a = filter (\<lambda>r. number_lt (Finite 70) (RSI r)) rows) \<and>
   (x < 100000 \<longrightarrow>
      filter_asset_size rows (Finite x) = filter (\<lambda>r. number_lt (RSI r) (Finite 30)) rows)"
proof (intro conjI impI)
  assume "number_lt a (Finite 100000)"
  then show "filter_asset_size rows a = filter (\<lambda>r. number_lt (RSI r) (Finite 30)) rows"
    by (simp add: filter_asset_size_filter)
next
  assume "number_le (Finite 100000) a \<and> number_lt a (Finite 1000000)"
  moreover from this have "\<not> number_lt a (Finite 100000)"
    using number_lt_not_le by blast
  ultimately show "filter_asset_size rows a =
      filter (\<lambda>r. number_le (Finite 30) (RSI r) \<and> number_le (RSI r) (Finite 70)) rows"
    by (simp add: filter_asset_size_filter)
next
  assume "number_le (Finite 1000000) a"
  from number_le_top_bracket [OF this, of 100000]
  show "filter_asset_size rows a = filter (\<lambda>r. number_lt (Finite 70) (RSI r)) rows"
    by (simp add: filter_asset_size_filter)
next
  assume "x < 100000"
  then show "filter_asset_size rows (Finite x) = filter (\<lambda>r. number_lt (RSI r) (Finite 30)) rows"
    by (simp add: filter_asset_size_filter)
qed

theorem asset_size_step_keeps_exactly_witness:
  "number_lt (Finite (- 5)) (Finite 100000) \<and> (0::real) < 100000 \<and>
   filter_asset_size
     [\<lparr>code = ''001'', K = Finite 20, D = Finite 20, J = Finite 20, RSI = Finite 20\<rparr>,
      \<lparr>code = ''002'', K = Finite 50, D = Finite 50, J = Finite 50, RSI = Finite 50\<rparr>,
      \<lparr>code = ''003'', K = Finite 80, D = Finite 80, J = Finite 80, RSI = Finite 80\<rparr>]
     (Finite (- 5))
     = [\<lparr>code = ''001'', K = Finite 20, D = Finite 20, J = Finite 20, RSI = Finite 20\<rparr>] \<and>
   filter_asset_size
     [\<lparr>code = ''001'', K = Finite 20, D = Finite 20, J = Finite 20, RSI = Finite 20\<rparr>,
      \<lparr>code = ''002'', K = Finite 50, D = Finite 50, J = Finite 50, RSI = Finite 50\<rparr>,
      \<lparr>code = ''003'', K = Finite 80, D = Finite 80, J = Finite 80, RSI = Finite 80\<rparr>]
     (Finite 0)
     = [\<lparr>code = ''001'', K = Finite 20, D = Finite 20, J = Finite 20, RSI = Finite 20\<rparr>] \<and>
   (number_le (Finite 100000) (Finite 100000) \<and> number_lt (Finite 100000) (Finite 1000000)) \<and>
   filter_asset_size
     [\<lparr>code = ''001'', K = Finite 20, D = Finite 20, J = Finite 20, RSI = Finite 20\<rparr>,
      \<lparr>code = ''002'', K = Finite 50, D = Finite 50, J = Finite 50, RSI = Finite 50\<rparr>,
      \<lparr>code = ''003'', K = Finite 80, D = Finite 80, J = Finite 80, RSI = Finite 80\<rparr>]
     (Finite 100000)
     = [\<lparr>code = ''002'', K = Finite 50, D = Finite 50, J = Finite 50, RSI = Finite 50\<rparr>] \<and>
   number_le (Finite 1000000) (Finite 1000000) \<and>
   filter_asset_size
     [\<lparr>code = ''001'', K = Finite 20, D = Finite 20, J = Finite 20, RSI = Finite 20\<rparr>,
      \<lparr>code = ''002'', K = Finite 50, D = Finite 50, J = Finite 50, RSI = Finite 50\<rparr>,
      \<lparr>code = ''003'', K = Finite 80, D = Finite 80, J = Finite 80, RSI = Finite 80\<rparr>]
     (Finite 1000000)
     = [\<lparr>code = ''003'', K = Finite 80, D = Finite 80, J = Finite 80, RSI = Finite 80\<rparr>]"
  using
    asset_size_step_keeps_exactly
      [of "Finite (- 5)"
          "[\<lparr>code = ''001'', K = Finite 20, D = Finite 20, J = Finite 20, RSI = Finite 20\<rparr>,
            \<lparr>code = ''002'', K = Finite 50, D = Finite 50, J = Finite 50, RSI = Finite 50\<rparr>,
            \<lparr>code = ''003'', K = Finite 80, D = Finite 80, J = Finite 80, RSI = Finite 80\<rparr>]" 0]
    asset_size_step_keeps_exactly
      [of "Finite 100000"
          "[\<lparr>code = ''001'', K = Finite 20, D = Finite 20, J = Finite 20, RSI = Finite 20\<rparr>,
            \<lparr>code = ''002'', K = Finite 50, D = Finite 50, J = Finite 50, RSI = Finite 50\<rparr>,
            \<lparr>code = ''003'', K = Finite 80, D = Finite 80, J = Finite 80, RSI = Finite 80\<rparr>]" 0]
    asset_size_step_keeps_exactly
      [of "Finite 1000000"
          "[\<lparr>code = ''001'', K = Finite 20, D = Finite 20, J = Finite 20, RSI = Finite 20\<rparr>,
            \<lparr>code = ''002'', K = Finite 50, D = Finite 50, J = Finite 50, RSI = Finite 50\<rparr>,
            \<lparr>code = ''003'', K = Finite 80, D = Finite 80, J = Finite 80, RSI = Finite 80\<rparr>]" 0]
  by simp

text \<open>
  C6. The third step keeps, of the rows it is given (in \<open>filter_stocks\<close> the rows
  the second step kept), exactly the rows with RSI < 50 for the married and exactly the
  rows with RSI >= 50 for the unmarried; for any other marital status it returns the
  rows unchanged.
\<close>

theorem marital_status_step_keeps_exactly:
  "filter_marital_status rows married = filter (\<lambda>r. number_lt (RSI r) (Finite 50)) rows \<and>
   filter_marital_status rows unmarried = filter (\<lambda>r. number_le (Finite 50) (RSI r)) rows \<and>
   (m \<noteq> married \<and> m \<noteq> unmarried \<longrightarrow> filter_marital_status rows m = rows)"
  by (simp add: filter_marital_status_filter marital_strings_distinct)

theorem marital_status_step_keeps_exactly_witness:
  "filter_marital_status
     [\<lparr>code = ''001'', K = Finite 20, D = Finite 20, J = Finite 20, RSI = Finite 40\<rparr>,
      \<lparr>code = ''002'', K = Finite 50, D = Finite 50, J = Finite 50, RSI = Finite 50\<rparr>]
     married
     = [\<lparr>code = ''001'', K = Finite 20, D = Finite 20, J = Finite 20, RSI = Finite 40\<rparr>] \<and>
   filter_marital_status
     [\<lparr>code = ''001'', K = Finite 20, D = Finite 20, J = Finite 20, RSI = Finite 40\<rparr>,
      \<lparr>code = ''002'', K = Finite 50, D = Finite 50, J = Finite 50, RSI = Finite 50\<rparr>]
     unmarried
     = [\<lparr>code = ''002'', K = Finite 50, D = Finite 50, J = Finite 50, RSI = Finite 50\<rparr>] \<and>
   ''divorced'' \<noteq> married \<and> ''divorced'' \<noteq> unmarried \<and>
   filter_marital_status
     [\<lparr>code = ''001'', K = Finite 20, D = Finite 20, J = Finite 20, RSI = Finite 40\<rparr>,
      \<lparr>code = ''002'', K = Finite 50, D = Finite 50, J = Finite 50, RSI = Finite 50\<rparr>]
     ''divorced''
     = [\<lparr>code = ''001'', K = Finite 20, D = Finite 20, J = Finite 20, RSI = Finite 40\<rparr>,
        \<lparr>code = ''002'', K = Finite 50, D = Finite 50, J = Finite 50, RSI = Finite 50\<rparr>]"
proof -
  have h: "''divorced'' \<noteq> married \<and> ''divorced'' \<noteq> unmarried"
    by (simp add: married_def unmarried_def)
  show ?thesis
    using h marital_status_step_keeps_exactly
      [of "[\<lparr>code = ''001'', K = Finite 20, D = Finite 20, J = Finite 20, RSI = Finite 40\<rparr>,
            \<lparr>code = ''002'', K = Finite 50, D = Finite 50, J = Finite 50, RSI = Finite 50\<rparr>]"
          "''divorced''"]
    by simp
qed

text \<open>
  C7. The fourth step keeps, of the rows it is given (in \<open>filter_stocks\<close> the rows
  the third step kept), exactly those whose RSI fits the bracket of the expected return:
  RSI < 30 for an expected return below 5, RSI between 30 and 70 for an expected return
  from 5 to below 10, RSI > 70 for an expected return of 10 or more.
\<close>

theorem expected_return_step_keeps_exactly:
  "(number_lt e (Finite 5) \<longrightarrow>
      filter_expected_return rows e = filter (\<lambda>r. number_lt (RSI r) (Finite 30)) rows) \<and>
   (number_le (Finite 5) e \<and> number_lt e (Finite 10) \<longrightarrow>
      filter_expected_return rows e =
        filter (\<lambda>r. number_le (Finite 30) (RSI r) \<and> number_le (RSI r) (Finite 70)) rows) \<and>
   (number_le (Finite 10) e \<longrightarrow>
      filter_expected_return rows e = filter (\<lambda>r. number_lt (Finite 70) (RSI r)) rows)"
proof (intro conjI impI)
  assume "number_lt e (Finite 5)"
  then show "filter_expected_return rows e = filter (\<lambda>r. number_lt (RSI r) (Finite 30)) rows"
    by (simp add: filter_expected_return_filter)
next
  assume "number_le (Finite 5) e \<and> number_lt e (Finite 10)"
  moreover from this have "\<not> number_lt e (Finite 5)"
    using number_lt_not_le by blast
  ultimately show "filter_expected_return rows e =
      filter (\<lambda>r. number_le (Finite 30) (RSI r) \<and> number_le (RSI r) (Finite 70)) rows"
    by (simp add: filter_expected_return_filter)
next
  assume "number_le (Finite 10) e"
  from number_le_top_bracket [OF this, of 5]
  show "filter_expected_return rows e = filter (\<lambda>r. number_lt (Finite 70) (RSI r)) rows"
    by (simp add: filter_expected_return_filter)
qed

theorem expected_return_step_keeps_exactly_witness:
  "number_lt (Finite 3) (Finite 5) \<and>
   filter_expected_return
     [\<lparr>code = ''001'', K = Finite 20, D = Finite 20, J = Finite 20, RSI = Finite 20\<rparr>,
      \<lparr>code = ''002'', K = Finite 50, D = Finite 50, J = Finite 50, RSI = Finite 50\<rparr>,
      \<lparr>code = ''003'', K = Finite 80, D = Finite 80, J = Finite 80, RSI = Finite 80\<rparr>]
     (Finite 3)
     = [\<lparr>code = ''001'', K = Finite 20, D = Finite 20, J = Finite 20, RSI = Finite 20\<rparr>] \<and>
   (number_le (Finite 5) (Finite 5) \<and> number_lt (Finite 5) (Finite 10)) \<and>
   filter_expected_return
     [\<lparr>code = ''001'', K = Finite 20, D = Finite 20, J = Finite 20, RSI = Finite 20\<rparr>,
      \<lparr>code = ''002'', K = Finite 50, D = Finite 50, J = Finite 50, RSI = Finite 50\<rparr>,
      \<lparr>code = ''003'', K = Finite 80, D = Finite 80, J = Finite 80, RSI = Finite 80\<rparr>]
     (Finite 5)
     = [\<lparr>code = ''002'', K = Finite 50, D = Finite 50, J = Finite 50, RSI = Finite 50\<rparr>] \<and>
   number_le (Finite 10) (Finite 10) \<and>
   filter_expected_return
     [\<lparr>code = ''001'', K = Finite 20, D = Finite 20, J = Finite 20, RSI = Finite 20\<rparr>,
      \<lparr>code = ''002'', K = Finite 50, D = Finite 50, J = Finite 50, RSI = Finite 50\<rparr>,
      \<lparr>code = ''003'', K = Finite 80, D = Finite 80, J = Finite 80, RSI = Finite 80\<rparr>]
     (Finite 10)
     = [\<lparr>code = ''003'', K = Finite 80, D = Finite 80, J = Finite 80, RSI = Finite 80\<rparr>]"
  using
    expected_return_step_keeps_exactly
      [of "Finite 3"
          "[\<lparr>code = ''001'', K = Finite 20, D = Finite 20, J = Finite 20, RSI = Finite 20\<rparr>,
            \<lparr>code = ''002'', K = Finite 50, D = Finite 50, J = Finite 50, RSI = Finite 50\<rparr>,
            \<lparr>code = ''003'', K = Finite 80, D = Finite 80, J = Finite 80, RSI = Finite 80\<rparr>]"]
    expected_return_step_keeps_exactly
      [of "Finite 5"
          "[\<lparr>code = ''001'', K = Finite 20, D = Finite 20, J = Finite 20, RSI = Finite 20\<rparr>,
            \<lparr>code = ''002'', K = Finite 50, D = Finite 50, J = Finite 50, RSI = Finite 50\<rparr>,
            \<lparr>code = ''003'', K = Finite 80, D = Finite 80, J = Finite 80, RSI = Finite 80\<rparr>]"]
    expected_return_step_keeps_exactly
      [of "Finite 10"
          "[\<lparr>code = ''001'', K = Finite 20, D = Finite 20, J = Finite 20, RSI = Finite 20\<rparr>,
            \<lparr>code = ''002'', K = Finite 50, D = Finite 50, J = Finite 50, RSI = Finite 50\<rparr>,
            \<lparr>code = ''003'', K = Finite 80, D = Finite 80, J = Finite 80, RSI = Finite 80\<rparr>]"]
  by simp

text \<open>
  C8. After the four steps the rows are projected onto (code, K, D, J, RSI) and rows
  equal in all five fields are dropped but for the first one, the order of the input
  kept: the result holds the projected row at each position where no equal projected row
  stands earlier. So a projected row that survives is in the result exactly once, however
  many surviving rows project to it, and two surviving rows with the same code that differ
  in an indicator are both in the result.
\<close>

theorem result_projected_and_deduplicated:
  assumes "filter_risk_preference df rp = Inr f1"
    and "survivors = filter_expected_return (filter_marital_status (filter_asset_size f1 a) m) e"
    and "projected = map stock_row.truncate survivors"
  shows "\<exists>res. filter_stocks df rp a m e = Inr res \<and>
           res = map ((!) projected)
                   (filter (\<lambda>i. \<forall>j<i. projected ! j \<noteq> projected ! i) [0..<length projected]) \<and>
           distinct res \<and> set res = set projected \<and>
           (\<forall>r\<in>set survivors. count_list res (stock_row.truncate r) = 1) \<and>
           (\<forall>r1\<in>set survivors. \<forall>r2\<in>set survivors.
              code r1 = code r2 \<and> (K r1 \<noteq> K r2 \<or> D r1 \<noteq> D r2 \<or> J r1 \<noteq> J r2 \<or> RSI r1 \<noteq> RSI r2) \<longrightarrow>
              stock_row.truncate r1 \<in> set res \<and> stock_row.truncate r2 \<in> set res \<and>
              stock_row.truncate r1 \<noteq> stock_row.truncate r2)"
proof -
  let ?res = "drop_duplicates projected"
  have res: "filter_stocks df rp a m e = Inr ?res"
    using filter_stocks_pipeline [OF assms(1), of a m e] assms(2,3) by simp
  have pos: "?res = map ((!) projected)
      (filter (\<lambda>i. \<forall>j<i. projected ! j \<noteq> projected ! i) [0..<length projected])"
    by (rule drop_duplicates_positions)
  have dist: "distinct ?res" by (rule distinct_drop_duplicates)
  have set_eq: "set ?res = set projected" by (rule set_drop_duplicates)
  have mem: "stock_row.truncate r \<in> set projected" if "r \<in> set survivors" for r
    using that assms(3) by simp
  have once: "\<forall>r\<in>set survivors. count_list ?res (stock_row.truncate r) = 1"
    using mem by (simp add: count_drop_duplicates)
  have both: "\<forall>r1\<in>set survivors. \<forall>r2\<in>set survivors.
      code r1 = code r2 \<and> (K r1 \<noteq> K r2 \<or> D r1 \<noteq> D r2 \<or> J r1 \<noteq> J r2 \<or> RSI r1 \<noteq> RSI r2) \<longrightarrow>
      stock_row.truncate r1 \<in> set ?res \<and> stock_row.truncate r2 \<in> set ?res \<and>
      stock_row.truncate r1 \<noteq> stock_row.truncate r2"
  proof (intro ballI impI)
    fix r1 r2
    assume r1: "r1 \<in> set survivors" and r2: "r2 \<in> set survivors"
      and d: "code r1 = code r2 \<and> (K r1 \<noteq> K r2 \<or> D r1 \<noteq> D r2 \<or> J r1 \<noteq> J r2 \<or> RSI r1 \<noteq> RSI r2)"
    have "stock_row.truncate r1 \<noteq> stock_row.truncate r2"
    proof
      assume "stock_row.truncate r1 = stock_row.truncate r2"
      then have "K (stock_row.truncate r1) = K (stock_row.truncate r2)"
        "D (stock_row.truncate r1) = D (stock_row.truncate r2)"
        "J (stock_row.truncate r1) = J (stock_row.truncate r2)"
        "RSI (stock_row.truncate r1) = RSI (stock_row.truncate r2)"
        by simp_all
      then show False using d by (simp add: truncate_fields RSI_truncate)
    qed
    with mem [OF r1] mem [OF r2] set_eq
    show "stock_row.truncate r1 \<in> set ?res \<and> stock_row.truncate r2 \<in> set ?res \<and>
      stock_row.truncate r1 \<noteq> stock_row.truncate r2"
      by simp
  qed
  from res pos dist set_eq once both show ?thesis by blast
qed

theorem result_projected_and_deduplicated_witness:
  "filter_risk_preference
     [\<lparr>code = ''002'', K = Finite 50, D = Finite 50, J = Finite 50, RSI = Finite 50, \<dots> = ''mon''\<rparr>,
      \<lparr>code = ''002'', K = Finite 50, D = Finite 50, J = Finite 50, RSI = Finite 50, \<dots> = ''tue''\<rparr>,
      \<lparr>code = ''002'', K = Finite 60, D = Finite 50, J = Finite 50, RSI = Finite 50, \<dots> = ''wed''\<rparr>,
      \<lparr>code = ''002'', K = Finite 50, D = Finite 50, J = Finite 50, RSI = Finite 50, \<dots> = ''thu''\<rparr>]
     risk_neutral
   = Inr
     [\<lparr>code = ''002'', K = Finite 50, D = Finite 50, J = Finite 50, RSI = Finite 50, \<dots> = ''mon''\<rparr>,
      \<lparr>code = ''002'', K = Finite 50, D = Finite 50, J = Finite 50, RSI = Finite 50, \<dots> = ''tue''\<rparr>,
      \<lparr>code = ''002'', K = Finite 60, D = Finite 50, J = Finite 50, RSI = Finite 50, \<dots> = ''wed''\<rparr>,
      \<lparr>code = ''002'', K = Finite 50, D = Finite 50, J = Finite 50, RSI = Finite 50, \<dots> = ''thu''\<rparr>] \<and>
   filter_stocks
     [\<lparr>code = ''002'', K = Finite 50, D = Finite 50, J = Finite 50, RSI = Finite 50, \<dots> = ''mon''\<rparr>,
      \<lparr>code = ''002'', K = Finite 50, D = Finite 50, J = Finite 50, RSI = Finite 50, \<dots> = ''tue''\<rparr>,
      \<lparr>code = ''002'', K = Finite 60, D = Finite 50, J = Finite 50, RSI = Finite 50, \<dots> = ''wed''\<rparr>,
      \<lparr>code = ''002'', K = Finite 50, D = Finite 50, J = Finite 50, RSI = Finite 50, \<dots> = ''thu''\<rparr>]
     risk_neutral (Finite 500000) unmarried (Finite 7)
   = Inr
     [\<lparr>code = ''002'', K = Finite 50, D = Finite 50, J = Finite 50, RSI = Finite 50\<rparr>,
      \<lparr>code = ''002'', K = Finite 60, D = Finite 50, J = Finite 50, RSI = Finite 50\<rparr>]"
proof -
  let ?T = "[\<lparr>code = ''002'', K = Finite 50, D = Finite 50, J = Finite 50, RSI = Finite 50, \<dots> = ''mon''\<rparr>,
      \<lparr>code = ''002'', K = Finite 50, D = Finite 50, J = Finite 50, RSI = Finite 50, \<dots> = ''tue''\<rparr>,
      \<lparr>code = ''002'', K = Finite 60, D = Finite 50, J = Finite 50, RSI = Finite 50, \<dots> = ''wed''\<rparr>,
      \<lparr>code = ''002'', K = Finite 50, D = Finite 50, J = Finite 50, RSI = Finite 50, \<dots> = ''thu''\<rparr>]"
  have h: "filter_risk_preference ?T risk_neutral = Inr ?T"
    by (simp add: run_defs)
  from result_projected_and_deduplicated [OF h refl refl, of "Finite 500000" unmarried "Finite 7"]
  obtain res where res: "filter_stocks ?T risk_neutral (Finite 500000) unmarried (Finite 7) = Inr res"
    by blast
  then have "res = [\<lparr>code = ''002'', K = Finite 50, D = Finite 50, J = Finite 50, RSI = Finite 50\<rparr>,
      \<lparr>code = ''002'', K = Finite 60, D = Finite 50, J = Finite 50, RSI = Finite 50\<rparr>]"
    by (simp add: run_defs)
  with h res show ?thesis by simp
qed

text \<open>
  C9. For every table and every profile with a recognised risk preference, the rows the
  first step alone keeps are a superset, as a set of rows, of the result of the whole
  function: the three later steps add no row. This holds for the rows the first step
  keeps, projected, and for the table the projection and \<open>drop_duplicates\<close> make
  of them.
\<close>

theorem risk_step_alone_is_superset:
  assumes "rp \<in> {risk_averse, risk_neutral, risk_seeking}"
  shows "\<exists>f1 res. filter_risk_preference df rp = Inr f1 \<and> filter_stocks df rp a m e = Inr res \<and>
           set res \<subseteq> stock_row.truncate ` set f1 \<and>
           set res \<subseteq> set (drop_duplicates (map stock_row.truncate f1))"
proof -
  from filter_risk_preference_recognised [OF assms, of df]
  obtain f1 where f1: "filter_risk_preference df rp = Inr f1" by blast
  let ?surv = "filter_expected_return (filter_marital_status (filter_asset_size f1 a) m) e"
  have "set (drop_duplicates (map stock_row.truncate ?surv)) \<subseteq> stock_row.truncate ` set f1"
    using survivors_subset [of f1 a m e] by (auto simp add: set_drop_duplicates)
  moreover have "set (drop_duplicates (map stock_row.truncate f1)) = stock_row.truncate ` set f1"
    by (simp add: set_drop_duplicates)
  ultimately show ?thesis
    using f1 filter_stocks_pipeline [OF f1, of a m e] by simp
qed

theorem risk_step_alone_is_superset_witness:
  "risk_neutral \<in> {risk_averse, risk_neutral, risk_seeking} \<and>
   filter_risk_preference
     [\<lparr>code = ''002'', K = Finite 50, D = Finite 50, J = Finite 50, RSI = Finite 50\<rparr>,
      \<lparr>code = ''004'', K = Finite 50, D = Finite 50, J = Finite 50, RSI = Finite 40\<rparr>,
      \<lparr>code = ''001'', K = Finite 20, D = Finite 20, J = Finite 20, RSI = Finite 40\<rparr>]
     risk_neutral
   = Inr
     [\<lparr>code = ''002'', K = Finite 50, D = Finite 50, J = Finite 50, RSI = Finite 50\<rparr>,
      \<lparr>code = ''004'', K = Finite 50, D = Finite 50, J = Finite 50, RSI = Finite 40\<rparr>] \<and>
   filter_stocks
     [\<lparr>code = ''002'', K = Finite 50, D = Finite 50, J = Finite 50, RSI = Finite 50\<rparr>,
      \<lparr>code = ''004'', K = Finite 50, D = Finite 50, J = Finite 50, RSI = Finite 40\<rparr>,
      \<lparr>code = ''001'', K = Finite 20, D = Finite 20, J = Finite 20, RSI = Finite 40\<rparr>]
     risk_neutral (Finite 500000) unmarried (Finite 7)
   = Inr [\<lparr>code = ''002'', K = Finite 50, D = Finite 50, J = Finite 50, RSI = Finite 50\<rparr>]"
proof -
  have h: "risk_neutral \<in> {risk_averse, risk_neutral, risk_seeking}" by simp
  show ?thesis
    using h risk_step_alone_is_superset [OF h,
      of "[\<lparr>code = ''002'', K = Finite 50, D = Finite 50, J = Finite 50, RSI = Finite 50\<rparr>,
           \<lparr>code = ''004'', K = Finite 50, D = Finite 50, J = Finite 50, RSI = Finite 40\<rparr>,
           \<lparr>code = ''001'', K = Finite 20, D = Finite 20, J = Finite 20, RSI = Finite 40\<rparr>]"
         "Finite 500000" unmarried "Finite 7"]
    by (simp add: run_defs)
qed

text \<open>
  C10. For every table, the result for a risk averse and unmarried profile is empty: the
  first step leaves only rows with RSI < 50 and the third keeps only rows with
  RSI >= 50.
\<close>

theorem averse_and_unmarried_is_empty:
  "filter_stocks df risk_averse a unmarried e = Inr []"
proof -
  let ?f1 = "filter (\<lambda>r. number_lt (K r) (Finite 30) \<and> number_lt (D r) (Finite 30) \<and>
                         number_lt (J r) (Finite 30) \<and> number_lt (RSI r) (Finite 50)) df"
  have f1: "filter_risk_preference df risk_averse = Inr ?f1"
    by (rule filter_risk_preference_averse)
  have "filter_marital_status (filter_asset_size ?f1 a) unmarried = []"
  proof -
    have "\<not> number_le (Finite 50) (RSI r)" if "r \<in> set (filter_asset_size ?f1 a)" for r
    proof -
      from that have "number_lt (RSI r) (Finite 50)"
        unfolding filter_asset_size_filter by simp
      then show ?thesis by (rule number_lt_not_le)
    qed
    then show ?thesis
      by (simp add: filter_marital_status_filter marital_strings_distinct filter_empty_conv)
  qed
  then have "filter_expected_return (filter_marital_status (filter_asset_size ?f1 a) unmarried) e = []"
    by (simp add: filter_expected_return_filter)
  with filter_stocks_pipeline [OF f1, of a unmarried e] show ?thesis
    by (simp add: drop_duplicates_def duplicated_def getitem_mask_def)
qed

theorem averse_and_unmarried_is_empty_witness:
  "filter_stocks
     [\<lparr>code = ''001'', K = Finite 20, D = Finite 20, J = Finite 20, RSI = Finite 20\<rparr>,
      \<lparr>code = ''002'', K = Finite 50, D = Finite 50, J = Finite 50, RSI = Finite 50\<rparr>]
     risk_averse (Finite 50000) unmarried (Finite 3) = Inr [] \<and>
   filter_stocks
     [\<lparr>code = ''001'', K = Finite 20, D = Finite 20, J = Finite 20, RSI = Finite 20\<rparr>,
      \<lparr>code = ''002'', K = Finite 50, D = Finite 50, J = Finite 50, RSI = Finite 50\<rparr>]
     risk_averse (Finite 50000) married (Finite 3)
   = Inr [\<lparr>code = ''001'', K = Finite 20, D = Finite 20, J = Finite 20, RSI = Finite 20\<rparr>]"
proof -
  have "filter_stocks
     [\<lparr>code = ''001'', K = Finite 20, D = Finite 20, J = Finite 20, RSI = Finite 20\<rparr>,
      \<lparr>code = ''002'', K = Finite 50, D = Finite 50, J = Finite 50, RSI = Finite 50\<rparr>]
     risk_averse (Finite 50000) married (Finite 3)
   = Inr [\<lparr>code = ''001'', K = Finite 20, D = Finite 20, J = Finite 20, RSI = Finite 20\<rparr>]"
    by (simp add: run_defs)
  with averse_and_unmarried_is_empty
    [of "[\<lparr>code = ''001'', K = Finite 20, D = Finite 20, J = Finite 20, RSI = Finite 20\<rparr>,
          \<lparr>code = ''002'', K = Finite 50, D = Finite 50, J = Finite 50, RSI = Finite 50\<rparr>]"
        "Finite 50000" "Finite 3"]
  show ?thesis by (rule conjI)
qed

end
